theory Spec2Isabelle
  imports Main
begin

section \<open>JavaScript values\<close>

text \<open>
  The server in \<^verbatim>\<open>backend/server.js\<close> is four Express handlers that relay JSON between a client,
  a web-search provider and a language-model provider. Strings are modelled by the bytes of
  their UTF-8 encoding (\<^typ>\<open>string\<close>), so every ASCII character is one \<^typ>\<open>char\<close>.

  A value decoded from JSON is a \<open>json\<close>. A number is kept as the decimal it was written
  as: \<open>JNum m e\<close> stands for the double that \<open>m * 10 ^ e\<close> is read as. The rounding to that
  double is not computed; of a number the handlers only ask whether it is zero. An object
  is the list of its members, each key once, in the order in which the engine lists them.
  The JavaScript value \<^verbatim>\<open>undefined\<close> is \<open>None\<close> of \<open>json option\<close>.
\<close>

datatype json =
    JNull
  | JBool bool
  | JNum int int
  | JStr string
  | JArr "json list"
  | JObj "(string \<times> json) list"

text \<open>
  The errors a handler can catch. Only the message of a caught error is ever read
  (\<^verbatim>\<open>error.message\<close>): \<open>Error m\<close> is an error whose message is the string \<open>m\<close>;
  \<open>ErrorOf v\<close> is \<^verbatim>\<open>new Error(v)\<close> for a value \<open>v\<close> that is not a string (its message is
  the engine's string conversion of \<open>v\<close>); \<open>TypeError\<close> is raised by the engine on a property
  read from \<^verbatim>\<open>null\<close> or \<^verbatim>\<open>undefined\<close> and on a call of something that is not a function;
  \<open>SyntaxError\<close> is raised by \<^verbatim>\<open>JSON.parse\<close>.
\<close>

datatype js_error = Error string | ErrorOf json | TypeError | SyntaxError

text \<open>
  Truthiness (\<^verbatim>\<open>!x\<close>, \<^verbatim>\<open>x || y\<close>, \<^verbatim>\<open>x && y\<close>). A JSON number is falsy exactly when the double it
  is read as is zero: the decimal is zero, or so small that it rounds to zero
  (at most \<open>2 ^ -1075\<close> in absolute value, half of the least positive double).
\<close>

definition num_is_zero :: "int \<Rightarrow> int \<Rightarrow> bool" where
  "num_is_zero m e = (m = 0 \<or> (e < 0 \<and> \<bar>m\<bar> * 2 ^ 1075 \<le> 10 ^ nat (- e)))"

fun truthy :: "json \<Rightarrow> bool" where
  "truthy JNull = False"
| "truthy (JBool b) = b"
| "truthy (JNum m e) = (\<not> num_is_zero m e)"
| "truthy (JStr s) = (s \<noteq> [])"
| "truthy (JArr xs) = True"
| "truthy (JObj fs) = True"

fun truthy_opt :: "json option \<Rightarrow> bool" where
  "truthy_opt None = False"
| "truthy_opt (Some v) = truthy v"

text \<open>\<^verbatim>\<open>x || d\<close> where \<open>d\<close> is a defined value.\<close>

definition js_or :: "json option \<Rightarrow> json \<Rightarrow> json" where
  "js_or x d = (case x of None \<Rightarrow> d | Some v \<Rightarrow> if truthy v then v else d)"

text \<open>
  Property reads. \<open>field v k\<close> is \<^verbatim>\<open>v.k\<close> for a value \<open>v\<close> that is not \<^verbatim>\<open>null\<close>, for the keys the
  handlers read (\<^verbatim>\<open>company\<close>, \<^verbatim>\<open>hasNews\<close>, \<^verbatim>\<open>success\<close>, \<^verbatim>\<open>title\<close>, ...): none of them is a property
  of a string, a number, a boolean or an array, so only an object can have one.
  \<open>elem0 v\<close> is \<^verbatim>\<open>v[0]\<close>: the first element of an array, the first character of a string
  (a string that has no member of its own, so that only its being there matters), the
  member \<^verbatim>\<open>"0"\<close> of an object.
\<close>

fun field :: "json \<Rightarrow> string \<Rightarrow> json option" where
  "field (JObj fs) k = map_of fs k"
| "field v k = None"

fun elem0 :: "json \<Rightarrow> json option" where
  "elem0 (JArr []) = None"
| "elem0 (JArr (x # xs)) = Some x"
| "elem0 (JStr []) = None"
| "elem0 (JStr (c # cs)) = Some (JStr [c])"
| "elem0 (JObj fs) = map_of fs ''0''"
| "elem0 v = None"

text \<open>\<^verbatim>\<open>v.k\<close>: a \<open>TypeError\<close> when \<open>v\<close> is \<^verbatim>\<open>undefined\<close> or \<^verbatim>\<open>null\<close>.\<close>

fun get :: "json option \<Rightarrow> string \<Rightarrow> js_error + json option" where
  "get None k = Inl TypeError"
| "get (Some JNull) k = Inl TypeError"
| "get (Some v) k = Inr (field v k)"

text \<open>\<^verbatim>\<open>v[0]\<close>, with the same \<open>TypeError\<close>.\<close>

fun get0 :: "json option \<Rightarrow> js_error + json option" where
  "get0 None = Inl TypeError"
| "get0 (Some JNull) = Inl TypeError"
| "get0 (Some v) = Inr (elem0 v)"

text \<open>\<^verbatim>\<open>v?.k\<close>: \<^verbatim>\<open>undefined\<close> when \<open>v\<close> is \<^verbatim>\<open>undefined\<close> or \<^verbatim>\<open>null\<close>.\<close>

fun get_opt :: "json option \<Rightarrow> string \<Rightarrow> json option" where
  "get_opt None k = None"
| "get_opt (Some JNull) k = None"
| "get_opt (Some v) k = field v k"

text \<open>
  An object literal handed to \<^verbatim>\<open>res.json\<close> or \<^verbatim>\<open>JSON.stringify\<close>: a member whose value is
  \<^verbatim>\<open>undefined\<close> is left out.
\<close>

fun obj :: "(string \<times> json option) list \<Rightarrow> (string \<times> json) list" where
  "obj [] = []"
| "obj ((k, None) # fs) = obj fs"
| "obj ((k, Some v) # fs) = (k, v) # obj fs"

definition JInt :: "nat \<Rightarrow> json" where
  "JInt n = JNum (int n) 0"

section \<open>Strings\<close>

definition digit_char :: "nat \<Rightarrow> char" where
  "digit_char d = ''0123456789'' ! d"

text \<open>The decimal digits of a number, as a template literal prints a status code.\<close>

fun show_nat :: "nat \<Rightarrow> string" where
  "show_nat n = (if n < 10 then [digit_char n] else show_nat (n div 10) @ [digit_char (n mod 10)])"

text \<open>\<^verbatim>\<open>xs.join(sep)\<close> on an array of strings.\<close>

fun join :: "string \<Rightarrow> string list \<Rightarrow> string" where
  "join sep [] = []"
| "join sep [x] = x"
| "join sep (x # y # ys) = x @ sep @ join sep (y # ys)"

text \<open>
  \<^verbatim>\<open>s.replace(re, "")\<close> for a global regular expression \<open>re\<close> that matches no empty string:
  \<open>m s\<close> is the length of the match of \<open>re\<close> at the start of \<open>s\<close>, or \<open>0\<close> when there is none.
  The scan goes left to right and resumes behind each match.
\<close>

function remove_all :: "(string \<Rightarrow> nat) \<Rightarrow> string \<Rightarrow> string" where
  "remove_all m [] = []"
| "remove_all m (c # cs) =
     (if m (c # cs) = 0 then c # remove_all m cs else remove_all m (drop (m (c # cs) - 1) cs))"
  by pat_completeness auto
termination
  by (relation "measure (\<lambda>(m, s). length s)") auto

definition newline :: char where
  "newline = CHR 0x0A"

definition backtick :: char where
  "backtick = CHR 0x60"

text \<open>The two expressions of the handler: \<^verbatim>\<open>/```json\n?/g\<close> and \<^verbatim>\<open>/```\n?/g\<close>.\<close>

definition optional_newline :: "string \<Rightarrow> nat" where
  "optional_newline s = (case s of [] \<Rightarrow> 0 | c # cs \<Rightarrow> if c = newline then 1 else 0)"

definition match_json_fence :: "string \<Rightarrow> nat" where
  "match_json_fence s =
     (if take 7 s = [backtick, backtick, backtick, CHR ''j'', CHR ''s'', CHR ''o'', CHR ''n'']
      then 7 + optional_newline (drop 7 s) else 0)"

definition match_fence :: "string \<Rightarrow> nat" where
  "match_fence s =
     (if take 3 s = [backtick, backtick, backtick] then 3 + optional_newline (drop 3 s) else 0)"

text \<open>
  \<^verbatim>\<open>s.trim()\<close> removes white space and line terminators from both ends: the six ASCII ones
  and, in UTF-8, U+00A0, U+1680, U+2000 to U+200A, U+2028, U+2029, U+202F, U+205F, U+3000
  and U+FEFF.
\<close>

definition ws1 :: "char \<Rightarrow> bool" where
  "ws1 a = (a \<in> set [CHR 0x09, CHR 0x0A, CHR 0x0B, CHR 0x0C, CHR 0x0D, CHR 0x20])"

definition ws2 :: "char \<Rightarrow> char \<Rightarrow> bool" where
  "ws2 a b = (a = CHR 0xC2 \<and> b = CHR 0xA0)"

definition ws3 :: "char \<Rightarrow> char \<Rightarrow> char \<Rightarrow> bool" where
  "ws3 a b c =
     ((a = CHR 0xE1 \<and> b = CHR 0x9A \<and> c = CHR 0x80) \<or>
      (a = CHR 0xE2 \<and> b = CHR 0x80 \<and>
         c \<in> set [CHR 0x80, CHR 0x81, CHR 0x82, CHR 0x83, CHR 0x84, CHR 0x85, CHR 0x86, CHR 0x87,
                   CHR 0x88, CHR 0x89, CHR 0x8A, CHR 0xA8, CHR 0xA9, CHR 0xAF]) \<or>
      (a = CHR 0xE2 \<and> b = CHR 0x81 \<and> c = CHR 0x9F) \<or>
      (a = CHR 0xE3 \<and> b = CHR 0x80 \<and> c = CHR 0x80) \<or>
      (a = CHR 0xEF \<and> b = CHR 0xBB \<and> c = CHR 0xBF))"

fun trimStart :: "string \<Rightarrow> string" where
  "trimStart (a # b # c # cs) =
     (if ws1 a then trimStart (b # c # cs)
      else if ws2 a b then trimStart (c # cs)
      else if ws3 a b c then trimStart cs
      else a # b # c # cs)"
| "trimStart [a, b] = (if ws1 a then trimStart [b] else if ws2 a b then [] else [a, b])"
| "trimStart [a] = (if ws1 a then [] else [a])"
| "trimStart [] = []"

text \<open>The same scan from the other end, on the reversed string.\<close>

fun trimEndRev :: "string \<Rightarrow> string" where
  "trimEndRev (a # b # c # cs) =
     (if ws1 a then trimEndRev (b # c # cs)
      else if ws2 b a then trimEndRev (c # cs)
      else if ws3 c b a then trimEndRev cs
      else a # b # c # cs)"
| "trimEndRev [a, b] = (if ws1 a then trimEndRev [b] else if ws2 b a then [] else [a, b])"
| "trimEndRev [a] = (if ws1 a then [] else [a])"
| "trimEndRev [] = []"

definition trim :: "string \<Rightarrow> string" where
  "trim s = rev (trimEndRev (rev (trimStart s)))"

section \<open>\<^verbatim>\<open>JSON.parse\<close>\<close>

text \<open>
  \<^verbatim>\<open>JSON.parse\<close> is part of the language, not of the repository; it is modelled by a lexer and
  a pushdown recogniser for the JSON grammar (ECMA-404). \<open>None\<close> is a \<^verbatim>\<open>SyntaxError\<close>.
\<close>

datatype token = TLBrace | TRBrace | TLBrack | TRBrack | TColon | TComma | TVal json

definition is_digit :: "char \<Rightarrow> bool" where
  "is_digit c = (c \<in> set ''0123456789'')"

definition digit_val :: "char \<Rightarrow> nat" where
  "digit_val c = of_char c - 48"

definition digits_val :: "string \<Rightarrow> nat" where
  "digits_val ds = foldl (\<lambda>a c. 10 * a + digit_val c) 0 ds"

definition hex_val :: "char \<Rightarrow> nat option" where
  "hex_val c =
     (if is_digit c then Some (of_char c - 48)
      else if c \<in> set ''abcdef'' then Some (of_char c - 87)
      else if c \<in> set ''ABCDEF'' then Some (of_char c - 55)
      else None)"

fun hex4 :: "string \<Rightarrow> (nat \<times> string) option" where
  "hex4 (a # b # c # d # r) =
     (case (hex_val a, hex_val b, hex_val c, hex_val d) of
        (Some w, Some x, Some y, Some z) \<Rightarrow> Some (((w * 16 + x) * 16 + y) * 16 + z, r)
      | _ \<Rightarrow> None)"
| "hex4 s = None"

text \<open>The UTF-8 bytes of a code point; a surrogate that stands alone is encoded like any
  other code point below \<open>0x10000\<close>.\<close>

definition utf8 :: "nat \<Rightarrow> string" where
  "utf8 n =
     (if n < 0x80 then [char_of n]
      else if n < 0x800 then [char_of (0xC0 + n div 0x40), char_of (0x80 + n mod 0x40)]
      else if n < 0x10000 then
        [char_of (0xE0 + n div 0x1000), char_of (0x80 + n div 0x40 mod 0x40),
         char_of (0x80 + n mod 0x40)]
      else
        [char_of (0xF0 + n div 0x40000), char_of (0x80 + n div 0x1000 mod 0x40),
         char_of (0x80 + n div 0x40 mod 0x40), char_of (0x80 + n mod 0x40)])"

definition backslash :: char where
  "backslash = CHR 0x5C"

definition dquote :: char where
  "dquote = CHR 0x22"

text \<open>Behind \<^verbatim>\<open>\u\<close>: four hexadecimal digits; a high surrogate followed by an escaped low
  surrogate is one code point.\<close>

definition lex_unicode :: "string \<Rightarrow> (string \<times> string) option" where
  "lex_unicode s =
     (case hex4 s of
        None \<Rightarrow> None
      | Some (hi, r) \<Rightarrow>
          if 0xD800 \<le> hi \<and> hi < 0xDC00 \<and> take 2 r = [backslash, CHR ''u''] then
            (case hex4 (drop 2 r) of
               None \<Rightarrow> Some (utf8 hi, r)
             | Some (lo, r') \<Rightarrow>
                 if 0xDC00 \<le> lo \<and> lo < 0xE000
                 then Some (utf8 (0x10000 + (hi - 0xD800) * 0x400 + (lo - 0xDC00)), r')
                 else Some (utf8 hi, r))
          else Some (utf8 hi, r))"

text \<open>Behind a backslash inside a string.\<close>

fun lex_escape :: "string \<Rightarrow> (string \<times> string) option" where
  "lex_escape [] = None"
| "lex_escape (c # cs) =
     (if c = dquote then Some ([dquote], cs)
      else if c = backslash then Some ([backslash], cs)
      else if c = CHR ''/'' then Some (''/'', cs)
      else if c = CHR ''b'' then Some ([CHR 0x08], cs)
      else if c = CHR ''f'' then Some ([CHR 0x0C], cs)
      else if c = CHR ''n'' then Some ([CHR 0x0A], cs)
      else if c = CHR ''r'' then Some ([CHR 0x0D], cs)
      else if c = CHR ''t'' then Some ([CHR 0x09], cs)
      else if c = CHR ''u'' then lex_unicode cs
      else None)"

lemma hex4_length: "hex4 s = Some (n, r) \<Longrightarrow> length r \<le> length s"
  by (induction s rule: hex4.induct) (auto split: option.splits)

lemma lex_unicode_length: "lex_unicode s = Some (b, r) \<Longrightarrow> length r \<le> length s"
  unfolding lex_unicode_def
  by (fastforce split: option.splits if_splits dest!: hex4_length)

lemma lex_escape_length: "lex_escape s = Some (b, r) \<Longrightarrow> length r \<le> length s"
  by (cases s) (auto split: if_splits dest!: lex_unicode_length)

text \<open>Behind the opening quote: up to the closing quote. A control character below
  \<open>0x20\<close> is not allowed unescaped.\<close>

function lex_string :: "string \<Rightarrow> string \<Rightarrow> (string \<times> string) option" where
  "lex_string acc [] = None"
| "lex_string acc (c # cs) =
     (if c = dquote then Some (acc, cs)
      else if c = backslash then
        (case lex_escape cs of
           None \<Rightarrow> None
         | Some (bytes, r) \<Rightarrow> lex_string (acc @ bytes) r)
      else if (of_char c :: nat) < 0x20 then None
      else lex_string (acc @ [c]) cs)"
  by pat_completeness auto
termination
  by (relation "measure (\<lambda>(acc, s). length s)") (auto dest!: lex_escape_length)

lemma lex_string_length: "lex_string acc s = Some (v, r) \<Longrightarrow> length r < length s"
proof (induction acc s rule: lex_string.induct)
  case (1 acc)
  then show ?case by simp
next
  case (2 acc c cs)
  then show ?case
    by (fastforce split: if_splits option.splits dest!: lex_escape_length)
qed

text \<open>
  A number: an optional minus, an integer part without a leading zero, an optional
  fraction, an optional exponent.
\<close>

definition lex_int :: "string \<Rightarrow> (string \<times> string) option" where
  "lex_int s =
     (if take 1 s = ''0'' then Some (''0'', drop 1 s)
      else if takeWhile is_digit s = [] then None
      else Some (takeWhile is_digit s, dropWhile is_digit s))"

definition lex_frac :: "string \<Rightarrow> (string \<times> string) option" where
  "lex_frac s =
     (if take 1 s = ''.'' then
        (if takeWhile is_digit (drop 1 s) = [] then None
         else Some (takeWhile is_digit (drop 1 s), dropWhile is_digit (drop 1 s)))
      else Some ([], s))"

definition lex_exp :: "string \<Rightarrow> (int \<times> string) option" where
  "lex_exp s =
     (if take 1 s = ''e'' \<or> take 1 s = ''E'' then
        (let neg = (take 1 (drop 1 s) = ''-'');
             s' = (if neg \<or> take 1 (drop 1 s) = ''+'' then drop 2 s else drop 1 s)
         in if takeWhile is_digit s' = [] then None
            else Some ((if neg then - 1 else 1) * int (digits_val (takeWhile is_digit s')),
                       dropWhile is_digit s'))
      else Some (0, s))"

definition lex_number :: "string \<Rightarrow> (json \<times> string) option" where
  "lex_number s =
     (let neg = (take 1 s = ''-'') in
      case lex_int (if neg then drop 1 s else s) of
        None \<Rightarrow> None
      | Some (ip, s2) \<Rightarrow>
          (case lex_frac s2 of
             None \<Rightarrow> None
           | Some (fd, s3) \<Rightarrow>
               (case lex_exp s3 of
                  None \<Rightarrow> None
                | Some (ex, s4) \<Rightarrow>
                    Some (JNum ((if neg then - 1 else 1) * int (digits_val (ip @ fd)))
                               (ex - int (length fd)), s4))))"

lemma lex_int_length: "lex_int s = Some (d, r) \<Longrightarrow> length r < length s"
  unfolding lex_int_def
  by (cases s) (auto split: if_splits simp: less_Suc_eq_le length_dropWhile_le)

lemma lex_frac_length: "lex_frac s = Some (d, r) \<Longrightarrow> length r \<le> length s"
  unfolding lex_frac_def
  by (auto split: if_splits intro: order_trans [OF length_dropWhile_le])

lemma lex_exp_length: "lex_exp s = Some (x, r) \<Longrightarrow> length r \<le> length s"
  unfolding lex_exp_def Let_def
  by (auto split: if_splits intro: order_trans [OF length_dropWhile_le])

lemma lex_number_length: "lex_number s = Some (v, r) \<Longrightarrow> length r < length s"
proof -
  assume a: "lex_number s = Some (v, r)"
  then obtain ip s2 fd s3 ex where
    1: "lex_int (if take 1 s = ''-'' then drop 1 s else s) = Some (ip, s2)" and
    2: "lex_frac s2 = Some (fd, s3)" and
    3: "lex_exp s3 = Some (ex, r)"
    unfolding lex_number_def Let_def by (auto split: option.splits)
  from 1 have "length s2 < length s"
    by (auto dest!: lex_int_length split: if_splits)
  moreover from 2 have "length s3 \<le> length s2" by (rule lex_frac_length)
  moreover from 3 have "length r \<le> length s3" by (rule lex_exp_length)
  ultimately show ?thesis by simp
qed

text \<open>What is left of a text behind a given word, if the text starts with it.\<close>

fun strip_prefix :: "string \<Rightarrow> string \<Rightarrow> string option" where
  "strip_prefix [] s = Some s"
| "strip_prefix (p # ps) [] = None"
| "strip_prefix (p # ps) (c # cs) = (if p = c then strip_prefix ps cs else None)"

lemma strip_prefix_length: "strip_prefix p s = Some r \<Longrightarrow> length r \<le> length s"
  by (induction p s rule: strip_prefix.induct) (auto split: if_splits)

text \<open>The token that starts with the character \<open>c\<close>, and the text behind it.\<close>

definition lex_token :: "char \<Rightarrow> string \<Rightarrow> (token \<times> string) option" where
  "lex_token c cs =
     (if c = CHR ''{'' then Some (TLBrace, cs)
      else if c = CHR ''}'' then Some (TRBrace, cs)
      else if c = CHR ''['' then Some (TLBrack, cs)
      else if c = CHR '']'' then Some (TRBrack, cs)
      else if c = CHR '':'' then Some (TColon, cs)
      else if c = CHR '','' then Some (TComma, cs)
      else if c = dquote then map_option (\<lambda>(s, r). (TVal (JStr s), r)) (lex_string [] cs)
      else if c = CHR ''-'' \<or> is_digit c then
        map_option (\<lambda>(v, r). (TVal v, r)) (lex_number (c # cs))
      else if c = CHR ''t'' then map_option (Pair (TVal (JBool True))) (strip_prefix ''rue'' cs)
      else if c = CHR ''f'' then map_option (Pair (TVal (JBool False))) (strip_prefix ''alse'' cs)
      else if c = CHR ''n'' then map_option (Pair (TVal JNull)) (strip_prefix ''ull'' cs)
      else None)"

lemma lex_token_length: "lex_token c cs = Some (t, r) \<Longrightarrow> length r \<le> length cs"
  unfolding lex_token_def
  by (auto split: if_splits dest!: lex_string_length lex_number_length strip_prefix_length)

text \<open>The tokens of a text. White space between tokens is space, tab, line feed and
  carriage return.\<close>

definition json_ws :: "char \<Rightarrow> bool" where
  "json_ws c = (c \<in> set [CHR 0x20, CHR 0x09, CHR 0x0A, CHR 0x0D])"

function lex_tokens :: "string \<Rightarrow> token list option" where
  "lex_tokens [] = Some []"
| "lex_tokens (c # cs) =
     (if json_ws c then lex_tokens cs
      else case lex_token c cs of
             None \<Rightarrow> None
           | Some (t, r) \<Rightarrow> map_option ((#) t) (lex_tokens r))"
  by pat_completeness auto
termination
  by (relation "measure length") (auto dest!: lex_token_length)

text \<open>
  The recogniser. A frame is an open container waiting for a value: an array with the
  elements read so far, or an object with the members read so far and the key whose value
  comes next.

  The members of an object are listed with the array indices first, in ascending order,
  and then the other keys in the order in which they were added; this is the order in
  which \<^verbatim>\<open>res.json\<close> writes them. An array index is the decimal numeral, without a leading
  zero, of a number below \<open>2 ^ 32 - 1\<close>. Numerals are compared by their length and then
  digit by digit. A member whose key is already there replaces the earlier value, where
  that stands.
\<close>

datatype frame = FArr "json list" | FObj "(string \<times> json) list" string

datatype pstate =
    NeedValue "frame list"
  | ArrOpen "frame list"
  | ObjOpen "frame list"
  | NeedKey "(string \<times> json) list" "frame list"
  | NeedColon "(string \<times> json) list" string "frame list"
  | InArray "json list" "frame list"
  | InObject "(string \<times> json) list" "frame list"
  | Done json

fun digits_less :: "string \<Rightarrow> string \<Rightarrow> bool" where
  "digits_less (a # as) (b # bs) =
     ((of_char a :: nat) < of_char b \<or> (a = b \<and> digits_less as bs))"
| "digits_less as bs = False"

definition numeral_less :: "string \<Rightarrow> string \<Rightarrow> bool" where
  "numeral_less k k' = (length k < length k' \<or> (length k = length k' \<and> digits_less k k'))"

definition is_array_index :: "string \<Rightarrow> bool" where
  "is_array_index k =
     (k \<noteq> [] \<and> list_all is_digit k \<and> (length k = 1 \<or> take 1 k \<noteq> ''0'') \<and>
      numeral_less k ''4294967295'')"

definition listed_before :: "string \<Rightarrow> string \<Rightarrow> bool" where
  "listed_before k k' = (is_array_index k \<and> (\<not> is_array_index k' \<or> numeral_less k k'))"

fun obj_insert :: "string \<Rightarrow> json \<Rightarrow> (string \<times> json) list \<Rightarrow> (string \<times> json) list" where
  "obj_insert k v [] = [(k, v)]"
| "obj_insert k v ((k', v') # fs) =
     (if listed_before k k' then (k, v) # (k', v') # fs else (k', v') # obj_insert k v fs)"

fun obj_replace :: "string \<Rightarrow> json \<Rightarrow> (string \<times> json) list \<Rightarrow> (string \<times> json) list" where
  "obj_replace k v [] = []"
| "obj_replace k v ((k', v') # fs) =
     (if k' = k then (k, v) # fs else (k', v') # obj_replace k v fs)"

definition obj_put :: "string \<Rightarrow> json \<Rightarrow> (string \<times> json) list \<Rightarrow> (string \<times> json) list" where
  "obj_put k v fs = (if map_of fs k = None then obj_insert k v fs else obj_replace k v fs)"

fun deliver :: "json \<Rightarrow> frame list \<Rightarrow> pstate" where
  "deliver v [] = Done v"
| "deliver v (FArr xs # st) = InArray (xs @ [v]) st"
| "deliver v (FObj fs k # st) = InObject (obj_put k v fs) st"

fun need_value :: "frame list \<Rightarrow> token \<Rightarrow> pstate option" where
  "need_value st (TVal v) = Some (deliver v st)"
| "need_value st TLBrack = Some (ArrOpen st)"
| "need_value st TLBrace = Some (ObjOpen st)"
| "need_value st t = None"

fun pstep :: "pstate \<Rightarrow> token \<Rightarrow> pstate option" where
  "pstep (NeedValue st) t = need_value st t"
| "pstep (ArrOpen st) TRBrack = Some (deliver (JArr []) st)"
| "pstep (ArrOpen st) t = need_value (FArr [] # st) t"
| "pstep (ObjOpen st) TRBrace = Some (deliver (JObj []) st)"
| "pstep (ObjOpen st) (TVal (JStr k)) = Some (NeedColon [] k st)"
| "pstep (NeedKey fs st) (TVal (JStr k)) = Some (NeedColon fs k st)"
| "pstep (NeedColon fs k st) TColon = Some (NeedValue (FObj fs k # st))"
| "pstep (InArray xs st) TComma = Some (NeedValue (FArr xs # st))"
| "pstep (InArray xs st) TRBrack = Some (deliver (JArr xs) st)"
| "pstep (InObject fs st) TComma = Some (NeedKey fs st)"
| "pstep (InObject fs st) TRBrace = Some (deliver (JObj fs) st)"
| "pstep s t = None"

fun prun :: "pstate \<Rightarrow> token list \<Rightarrow> json option" where
  "prun (Done v) [] = Some v"
| "prun s [] = None"
| "prun s (t # ts) = (case pstep s t of None \<Rightarrow> None | Some s' \<Rightarrow> prun s' ts)"

definition JSON_parse :: "string \<Rightarrow> json option" where
  "JSON_parse s = (case lex_tokens s of None \<Rightarrow> None | Some ts \<Rightarrow> prun (NeedValue []) ts)"

section \<open>The handlers\<close>

text \<open>
  A request body is read at the types the interface gives its members (a prospect name and
  a query are strings, keywords and prospects are arrays of strings, search results are an
  array); a member that is missing is \<open>None\<close>. What a provider or a sibling endpoint
  answers is not typed: it is whatever JSON comes back.

  The two credentials are read from the environment once, at start-up.
\<close>

record config =
  BRAVE_API_KEY :: "string option"
  ANTHROPIC_API_KEY :: "string option"

text \<open>
  What a handler sends: \<open>Response status body\<close> is \<^verbatim>\<open>res.status(status).json(body)\<close>, and
  \<open>ErrorResponse status label e\<close> is the body \<^verbatim>\<open>{ error: label, message: e.message }\<close> a
  handler sends from its outer \<^verbatim>\<open>catch\<close>. Writing to the console is not modelled.
\<close>

datatype response = Response nat json | ErrorResponse nat string js_error

text \<open>
  The outcome of a call to a provider, as the handler sees it: \<^verbatim>\<open>fetch\<close> or the reading of
  the body rejected with a message; the provider answered with a status that is not a
  success (status, status text, body text); or it answered with JSON.
\<close>

datatype upstream = Rejected string | NotOk nat string string | Replied json

text \<open>\<^verbatim>\<open>!x\<close> for a string that may be missing.\<close>

fun missing :: "string option \<Rightarrow> bool" where
  "missing None = True"
| "missing (Some s) = (s = [])"

subsection \<open>\<^verbatim>\<open>POST /api/web-search\<close>\<close>

record search_request =
  search_method :: string
  search_url :: string
  search_params :: "(string \<times> string) list"
  search_headers :: "(string \<times> string) list"

text \<open>One hit of the provider, in the shape the application uses.\<close>

definition format_result :: "json \<Rightarrow> js_error + json" where
  "format_result result =
     (case result of
        JNull \<Rightarrow> Inl TypeError
      | _ \<Rightarrow>
          Inr (JObj
            [(''title'', js_or (field result ''title'') (JStr ''No title'')),
             (''url'', js_or (field result ''url'') (JStr [])),
             (''description'', js_or (field result ''description'') (JStr ''No description'')),
             (''published'', js_or (field result ''age'') (JStr ''Recent'')),
             (''favicon'', js_or (get_opt (field result ''profile'') ''img'') JNull)]))"

text \<open>\<^verbatim>\<open>hits.map(format)\<close>: the first hit that raises ends the map.\<close>

fun map_results :: "json list \<Rightarrow> js_error + json list" where
  "map_results [] = Inr []"
| "map_results (h # hs) =
     (case format_result h of
        Inl e \<Rightarrow> Inl e
      | Inr r \<Rightarrow> (case map_results hs of Inl e \<Rightarrow> Inl e | Inr rs \<Rightarrow> Inr (r # rs)))"

text \<open>\<^verbatim>\<open>searchData.web?.results?.map(...) || []\<close>\<close>

definition format_results :: "json \<Rightarrow> js_error + json list" where
  "format_results searchData =
     (case get (Some searchData) ''web'' of
        Inl e \<Rightarrow> Inl e
      | Inr web \<Rightarrow>
          (case get_opt web ''results'' of
             None \<Rightarrow> Inr []
           | Some JNull \<Rightarrow> Inr []
           | Some (JArr hits) \<Rightarrow> map_results hits
           | Some _ \<Rightarrow> Inl TypeError))"

definition brave_request :: "string \<Rightarrow> string \<Rightarrow> search_request" where
  "brave_request key query =
     \<lparr>search_method = ''GET'',
      search_url = ''https://api.search.brave.com/res/v1/web/search'',
      search_params =
        [(''q'', query), (''count'', ''10''), (''freshness'', ''pw''),
         (''text_decorations'', ''false''), (''search_lang'', ''en''), (''country'', ''US'')],
      search_headers =
        [(''Accept'', ''application/json''), (''Accept-Encoding'', ''gzip''),
         (''X-Subscription-Token'', key)]\<rparr>"

text \<open>The handler answers with its response and the list of the calls it made to the
  provider.\<close>

definition web_search ::
  "config \<Rightarrow> string option \<Rightarrow> (search_request \<Rightarrow> upstream) \<Rightarrow> response \<times> search_request list"
where
  "web_search cfg query brave =
     (if missing query then
        (Response 400 (JObj [(''error'', JStr ''Query parameter is required'')]), [])
      else if missing (BRAVE_API_KEY cfg) then
        (Response 500 (JObj [(''error'', JStr ''Brave API key not configured'')]), [])
      else
        (let req = brave_request (the (BRAVE_API_KEY cfg)) (the query) in
         case brave req of
           Rejected m \<Rightarrow> (ErrorResponse 500 ''Search failed'' (Error m), [req])
         | NotOk status statusText text \<Rightarrow>
             (ErrorResponse 500 ''Search failed''
                (Error (''Brave API error: '' @ show_nat status @ '' '' @ statusText)), [req])
         | Replied searchData \<Rightarrow>
             (case format_results searchData of
                Inl e \<Rightarrow> (ErrorResponse 500 ''Search failed'' e, [req])
              | Inr results \<Rightarrow>
                  (Response 200
                     (JObj [(''success'', JBool True), (''query'', JStr (the query)),
                            (''results'', JArr results), (''total'', JInt (length results))]),
                   [req]))))"

subsection \<open>\<^verbatim>\<open>POST /api/analyze-prospect\<close>\<close>

text \<open>The request to the model: the prompt embeds the prospect name, the first eight search
  results and the keywords joined by a comma.\<close>

record llm_request =
  llm_api_key :: string
  llm_model :: string
  llm_max_tokens :: nat
  llm_prospect :: string
  llm_results :: "json list"
  llm_keywords :: string

definition claude_request :: "string \<Rightarrow> string \<Rightarrow> string list \<Rightarrow> json list \<Rightarrow> llm_request" where
  "claude_request key prospect keywords searchResults =
     \<lparr>llm_api_key = key, llm_model = ''claude-3-sonnet-20240229'', llm_max_tokens = 1500,
      llm_prospect = prospect, llm_results = take 8 searchResults,
      llm_keywords = join '', '' keywords\<rparr>"

text \<open>\<^verbatim>\<open>analysisData.content[0].text\<close>, which must be a string for \<^verbatim>\<open>.replace\<close> to be there.\<close>

definition response_text :: "json \<Rightarrow> js_error + string" where
  "response_text analysisData =
     (case get (Some analysisData) ''content'' of
        Inl e \<Rightarrow> Inl e
      | Inr content \<Rightarrow>
          (case get0 content of
             Inl e \<Rightarrow> Inl e
           | Inr block \<Rightarrow>
               (case get block ''text'' of
                  Inl e \<Rightarrow> Inl e
                | Inr (Some (JStr text)) \<Rightarrow> Inr text
                | Inr _ \<Rightarrow> Inl TypeError)))"

definition clean_response :: "string \<Rightarrow> string" where
  "clean_response responseText =
     trim (remove_all match_fence (remove_all match_json_fence responseText))"

fun is_boolean :: "json option \<Rightarrow> bool" where
  "is_boolean (Some (JBool b)) = True"
| "is_boolean v = False"

text \<open>The test \<^verbatim>\<open>!analysis.company || typeof analysis.hasNews !== 'boolean'\<close>.\<close>

definition invalid_structure :: "json \<Rightarrow> js_error + bool" where
  "invalid_structure analysis =
     (case get (Some analysis) ''company'' of
        Inl e \<Rightarrow> Inl e
      | Inr company \<Rightarrow> Inr (\<not> truthy_opt company \<or> \<not> is_boolean (field analysis ''hasNews'')))"

text \<open>The inner \<^verbatim>\<open>try\<close> block: parse, then validate the structure.\<close>

definition decode_analysis :: "string \<Rightarrow> js_error + json" where
  "decode_analysis responseText =
     (case JSON_parse responseText of
        None \<Rightarrow> Inl SyntaxError
      | Some analysis \<Rightarrow>
          (case invalid_structure analysis of
             Inl e \<Rightarrow> Inl e
           | Inr True \<Rightarrow> Inl (Error ''Invalid analysis response structure'')
           | Inr False \<Rightarrow> Inr analysis))"

text \<open>The inner \<^verbatim>\<open>catch\<close> block. The message starts with U+2139 U+FE0F.\<close>

definition info_sign :: string where
  "info_sign = [CHR 0xE2, CHR 0x84, CHR 0xB9, CHR 0xEF, CHR 0xB8, CHR 0x8F]"

definition fallback_analysis :: "string \<Rightarrow> json list \<Rightarrow> json" where
  "fallback_analysis prospect searchResults =
     JObj [(''company'', JStr prospect),
           (''hasNews'', JBool False),
           (''summary'', JStr ''Unable to analyze search results properly''),
           (''newsType'', JStr ''other''),
           (''urgency'', JStr ''low''),
           (''slackMessage'',
              JStr (info_sign @ '' Unable to analyze news for '' @ prospect @
                    '' - manual review needed'')),
           (''sourceUrl'', js_or (get_opt (elem0 (JArr searchResults)) ''url'') JNull),
           (''confidence'', JStr ''low'')]"

definition analysis_envelope :: "json \<Rightarrow> response" where
  "analysis_envelope analysis =
     Response 200 (JObj [(''success'', JBool True), (''analysis'', analysis)])"

definition analyze_prospect ::
  "config \<Rightarrow> string option \<Rightarrow> string list option \<Rightarrow> json list option \<Rightarrow>
   (llm_request \<Rightarrow> upstream) \<Rightarrow> response \<times> llm_request list"
where
  "analyze_prospect cfg prospect keywords searchResults claude =
     (if missing prospect \<or> keywords = None \<or> searchResults = None then
        (Response 400 (JObj [(''error'', JStr ''Missing required parameters'')]), [])
      else if missing (ANTHROPIC_API_KEY cfg) then
        (Response 500 (JObj [(''error'', JStr ''Anthropic API key not configured'')]), [])
      else
        (let req = claude_request (the (ANTHROPIC_API_KEY cfg)) (the prospect) (the keywords)
                     (the searchResults)
         in case claude req of
           Rejected m \<Rightarrow> (ErrorResponse 500 ''Analysis failed'' (Error m), [req])
         | NotOk status statusText errorText \<Rightarrow>
             (ErrorResponse 500 ''Analysis failed''
                (Error (''Claude API error: '' @ show_nat status @ '' - '' @ errorText)), [req])
         | Replied analysisData \<Rightarrow>
             (case response_text analysisData of
                Inl e \<Rightarrow> (ErrorResponse 500 ''Analysis failed'' e, [req])
              | Inr responseText \<Rightarrow>
                  (case decode_analysis (clean_response responseText) of
                     Inr analysis \<Rightarrow> (analysis_envelope analysis, [req])
                   | Inl parseError \<Rightarrow>
                       (analysis_envelope (fallback_analysis (the prospect) (the searchResults)),
                        [req])))))"

subsection \<open>\<^verbatim>\<open>POST /api/monitor-prospect\<close>\<close>

text \<open>
  The two monitoring handlers call sibling endpoints over HTTP, at the protocol and host of
  the request they serve, and read the answer with \<^verbatim>\<open>.json()\<close> whatever its status. The
  outcome of such a call is that \<^verbatim>\<open>fetch\<close> or \<^verbatim>\<open>.json()\<close> rejected with a message, or the
  decoded body; the handlers are modelled for every such outcome.
\<close>

datatype selfcall = Threw string | Got json

datatype call =
    WebSearchCall string
  | AnalyzeCall string "string list" "json option"

definition searchQuery :: "string \<Rightarrow> string list \<Rightarrow> string" where
  "searchQuery prospect keywords =
     [dquote] @ prospect @ [dquote] @ '' ('' @ join '' OR '' (take 4 keywords) @ '') 2025''"

text \<open>\<^verbatim>\<open>new Error(v)\<close>\<close>

fun new_Error :: "json \<Rightarrow> js_error" where
  "new_Error (JStr m) = Error m"
| "new_Error v = ErrorOf v"

text \<open>
  \<open>now\<close> is the clock's \<^verbatim>\<open>new Date().toISOString()\<close>. The handler answers with its
  response and the calls it made, in order.
\<close>

definition monitor_prospect ::
  "string \<Rightarrow> string option \<Rightarrow> string list option \<Rightarrow> (string \<Rightarrow> selfcall) \<Rightarrow>
   (string \<Rightarrow> string list \<Rightarrow> json option \<Rightarrow> selfcall) \<Rightarrow> response \<times> call list"
where
  "monitor_prospect now prospect keywords webSearch analyzeProspect =
     (if missing prospect \<or> keywords = None then
        (Response 400 (JObj [(''error'', JStr ''Prospect and keywords are required'')]), [])
      else
        (let p = the prospect; kws = the keywords; q = searchQuery p kws in
         case webSearch q of
           Threw m \<Rightarrow> (ErrorResponse 500 ''Monitoring failed'' (Error m), [WebSearchCall q])
         | Got searchData \<Rightarrow>
             (case get (Some searchData) ''success'' of
                Inl e \<Rightarrow> (ErrorResponse 500 ''Monitoring failed'' e, [WebSearchCall q])
              | Inr success \<Rightarrow>
                  if \<not> truthy_opt success then
                    (ErrorResponse 500 ''Monitoring failed''
                       (new_Error (js_or (field searchData ''message'') (JStr ''Search failed''))),
                     [WebSearchCall q])
                  else
                    (let results = field searchData ''results'';
                         calls = [WebSearchCall q, AnalyzeCall p kws results]
                     in case analyzeProspect p kws results of
                       Threw m \<Rightarrow> (ErrorResponse 500 ''Monitoring failed'' (Error m), calls)
                     | Got analysisData \<Rightarrow>
                         (case get (Some analysisData) ''success'' of
                            Inl e \<Rightarrow> (ErrorResponse 500 ''Monitoring failed'' e, calls)
                          | Inr success' \<Rightarrow>
                              if \<not> truthy_opt success' then
                                (ErrorResponse 500 ''Monitoring failed''
                                   (new_Error (js_or (field analysisData ''message'')
                                                 (JStr ''Analysis failed''))),
                                 calls)
                              else
                                (Response 200
                                   (JObj (obj
                                      [(''success'', Some (JBool True)),
                                       (''prospect'', Some (JStr p)),
                                       (''searchResults'', results),
                                       (''analysis'', field analysisData ''analysis''),
                                       (''metadata'', Some (JObj (obj
                                          [(''searchQuery'', Some (JStr q)),
                                           (''totalResults'', field searchData ''total''),
                                           (''timestamp'', Some (JStr now))])))])),
                                 calls))))))"

subsection \<open>\<^verbatim>\<open>POST /api/monitor-all-prospects\<close>\<close>

text \<open>What the batch does, in order: a call of the monitoring endpoint for a prospect, and
  a pause of so many milliseconds.\<close>

datatype event = MonitorCall string "string list" | Pause nat

definition failure_record :: "string \<Rightarrow> string \<Rightarrow> json" where
  "failure_record prospect message =
     JObj [(''success'', JBool False), (''prospect'', JStr prospect), (''error'', JStr message)]"

text \<open>
  The loop over the prospects. \<open>monitor i prospect keywords\<close> is the outcome of the call the
  \<open>i\<close>-th round makes; the state is the \<^verbatim>\<open>results\<close> array and the events so far.
\<close>

fun monitor_loop ::
  "(nat \<Rightarrow> string \<Rightarrow> string list \<Rightarrow> selfcall) \<Rightarrow> string list \<Rightarrow> nat \<Rightarrow> string list \<Rightarrow>
   json list \<times> event list \<Rightarrow> json list \<times> event list"
where
  "monitor_loop monitor keywords i [] (results, events) = (results, events)"
| "monitor_loop monitor keywords i (prospect # rest) (results, events) =
     (case monitor i prospect keywords of
        Got monitorData \<Rightarrow>
          monitor_loop monitor keywords (Suc i) rest
            (results @ [monitorData], events @ [MonitorCall prospect keywords, Pause 1000])
      | Threw message \<Rightarrow>
          monitor_loop monitor keywords (Suc i) rest
            (results @ [failure_record prospect message],
             events @ [MonitorCall prospect keywords]))"

text \<open>The three filters of the summary. Each reads \<^verbatim>\<open>r.success\<close>, which raises when an
  entry is \<^verbatim>\<open>null\<close>.\<close>

definition succeeded :: "json \<Rightarrow> bool" where
  "succeeded r = truthy_opt (field r ''success'')"

definition with_news :: "json \<Rightarrow> bool" where
  "with_news r = (succeeded r \<and> truthy_opt (get_opt (field r ''analysis'') ''hasNews''))"

definition summary :: "nat \<Rightarrow> json list \<Rightarrow> js_error + json" where
  "summary n results =
     (if JNull \<in> set results then Inl TypeError
      else Inr (JObj
        [(''total'', JInt n),
         (''successful'', JInt (length (filter succeeded results))),
         (''failed'', JInt (length (filter (\<lambda>r. \<not> succeeded r) results))),
         (''withNews'', JInt (length (filter with_news results)))]))"

fun absent :: "string list option \<Rightarrow> bool" where
  "absent None = True"
| "absent (Some xs) = (xs = [])"

definition monitor_all_prospects ::
  "string list option \<Rightarrow> string list option \<Rightarrow> (nat \<Rightarrow> string \<Rightarrow> string list \<Rightarrow> selfcall) \<Rightarrow>
   response \<times> event list"
where
  "monitor_all_prospects prospects keywords monitor =
     (if absent prospects then
        (Response 400 (JObj [(''error'', JStr ''Prospects array is required'')]), [])
      else if absent keywords then
        (Response 400 (JObj [(''error'', JStr ''Keywords array is required'')]), [])
      else
        (let (results, events) = monitor_loop monitor (the keywords) 0 (the prospects) ([], [])
         in case summary (length (the prospects)) results of
              Inl e \<Rightarrow> (ErrorResponse 500 ''Batch monitoring failed'' e, events)
            | Inr s \<Rightarrow>
                (Response 200
                   (JObj [(''success'', JBool True), (''results'', JArr results),
                          (''summary'', s)]),
                 events)))"

section \<open>Notions of the specification\<close>

text \<open>
  A response text is malformed when it is not JSON, or when what it parses to has no
  \<^verbatim>\<open>company\<close> member or no boolean \<^verbatim>\<open>hasNews\<close> member.
\<close>

definition malformed :: "string \<Rightarrow> bool" where
  "malformed text =
     (case JSON_parse text of
        None \<Rightarrow> True
      | Some v \<Rightarrow> field v ''company'' = None \<or> \<not> is_boolean (field v ''hasNews''))"







text \<open>The hits a provider's answer carries: the array at \<^verbatim>\<open>web.results\<close>, if there is one.\<close>

definition upstream_hits :: "json \<Rightarrow> json list" where
  "upstream_hits searchData =
     (case get_opt (field searchData ''web'') ''results'' of
        Some (JArr hits) \<Rightarrow> hits
      | _ \<Rightarrow> [])"

text \<open>The first four keywords, or all of them when there are fewer, with \<^verbatim>\<open>OR\<close> between
  them.\<close>

fun disjunction :: "string list \<Rightarrow> string" where
  "disjunction [] = []"
| "disjunction [a] = a"
| "disjunction [a, b] = a @ '' OR '' @ b"
| "disjunction [a, b, c] = a @ '' OR '' @ b @ '' OR '' @ c"
| "disjunction (a # b # c # d # rest) = a @ '' OR '' @ b @ '' OR '' @ c @ '' OR '' @ d"

definition quoted :: "string \<Rightarrow> string" where
  "quoted s = dquote # s @ [dquote]"

text \<open>
  The batch, round by round: the entry a round adds to the results and the events it adds,
  from the outcome of its call.
\<close>

fun entry :: "selfcall \<Rightarrow> string \<Rightarrow> json" where
  "entry (Got monitorData) prospect = monitorData"
| "entry (Threw message) prospect = failure_record prospect message"

fun steps :: "selfcall \<Rightarrow> string \<Rightarrow> string list \<Rightarrow> event list" where
  "steps (Got monitorData) prospect keywords = [MonitorCall prospect keywords, Pause 1000]"
| "steps (Threw message) prospect keywords = [MonitorCall prospect keywords]"

fun entries ::
  "(nat \<Rightarrow> string \<Rightarrow> string list \<Rightarrow> selfcall) \<Rightarrow> string list \<Rightarrow> nat \<Rightarrow> string list \<Rightarrow>
   json list"
where
  "entries monitor keywords i [] = []"
| "entries monitor keywords i (p # ps) =
     entry (monitor i p keywords) p # entries monitor keywords (Suc i) ps"

fun trace ::
  "(nat \<Rightarrow> string \<Rightarrow> string list \<Rightarrow> selfcall) \<Rightarrow> string list \<Rightarrow> nat \<Rightarrow> string list \<Rightarrow>
   event list"
where
  "trace monitor keywords i [] = []"
| "trace monitor keywords i (p # ps) =
     steps (monitor i p keywords) p keywords @ trace monitor keywords (Suc i) ps"

text \<open>The events that are calls.\<close>

fun is_call :: "event \<Rightarrow> bool" where
  "is_call (MonitorCall prospect keywords) = True"
| "is_call (Pause ms) = False"



subsection \<open>Sample inputs\<close>

definition sample_config :: config where
  "sample_config =
     \<lparr>BRAVE_API_KEY = Some ''brave-key'', ANTHROPIC_API_KEY = Some ''anthropic-key''\<rparr>"

text \<open>A model that answers every request with one text block.\<close>

definition text_block :: "string \<Rightarrow> json" where
  "text_block text =
     JObj [(''content'', JArr [JObj [(''type'', JStr ''text''), (''text'', JStr text)]])]"

definition text_reply :: "string \<Rightarrow> llm_request \<Rightarrow> upstream" where
  "text_reply text req = Replied (text_block text)"



text \<open>What the search endpoint makes of a hit that has no member at all.\<close>

definition unnamed_result :: json where
  "unnamed_result =
     JObj [(''title'', JStr ''No title''), (''url'', JStr []),
           (''description'', JStr ''No description''), (''published'', JStr ''Recent''),
           (''favicon'', JNull)]"

text \<open>A search provider that answers every request with the same JSON.\<close>

definition brave_reply :: "json \<Rightarrow> search_request \<Rightarrow> upstream" where
  "brave_reply searchData req = Replied searchData"

definition hits_reply :: "json list \<Rightarrow> json" where
  "hits_reply hits = JObj [(''web'', JObj [(''results'', JArr hits)])]"

definition acme_hit :: json where
  "acme_hit =
     JObj [(''title'', JStr ''Acme raises funds''), (''url'', JStr ''https://example.com/a''),
           (''age'', JStr ''2 days ago'')]"

text \<open>Sibling endpoints that answer every call with the same body.\<close>

definition search_answer :: "json \<Rightarrow> string \<Rightarrow> selfcall" where
  "search_answer searchData q = Got searchData"

definition analysis_answer :: "json \<Rightarrow> string \<Rightarrow> string list \<Rightarrow> json option \<Rightarrow> selfcall" where
  "analysis_answer analysisData p kws results = Got analysisData"

definition no_results :: json where
  "no_results =
     JObj [(''success'', JBool True), (''query'', JStr ''q''), (''results'', JArr []),
           (''total'', JInt 0)]"

definition no_news :: json where
  "no_news =
     JObj [(''success'', JBool True),
           (''analysis'', JObj [(''company'', JStr ''Acme Corp''), (''hasNews'', JBool False)])]"

text \<open>A monitoring endpoint that answers with a success envelope in every round but one.\<close>

definition monitored :: "string \<Rightarrow> json" where
  "monitored p =
     JObj [(''success'', JBool True), (''prospect'', JStr p),
           (''analysis'', JObj [(''company'', JStr p), (''hasNews'', JBool True)])]"


definition fails_at :: "nat \<Rightarrow> selfcall \<Rightarrow> nat \<Rightarrow> string \<Rightarrow> string list \<Rightarrow> selfcall" where
  "fails_at k failure i p kws = (if i = k then failure else Got (monitored p))"

section \<open>The analysis endpoint\<close>

lemma get_Inr: "get (Some v) k = Inr x \<Longrightarrow> x = field v k"
  by (cases v) simp_all

lemma malformed_decode: "malformed text \<Longrightarrow> \<exists>e. decode_analysis text = Inl e"
  unfolding malformed_def decode_analysis_def invalid_structure_def
  by (auto split: option.splits sum.splits bool.splits dest!: get_Inr)

lemma analyze_fallback:
  assumes "p \<noteq> []" "key \<noteq> []"
    and "claude (claude_request key p kws srs) = Replied analysisData"
    and "response_text analysisData = Inr text"
    and "decode_analysis (clean_response text) = Inl e"
  shows "analyze_prospect \<lparr>BRAVE_API_KEY = b, ANTHROPIC_API_KEY = Some key\<rparr>
           (Some p) (Some kws) (Some srs) claude
         = (analysis_envelope (fallback_analysis p srs), [claude_request key p kws srs])"
  using assms by (simp add: analyze_prospect_def)


lemma response_text_block: "response_text (text_block text) = Inr text"
  by (simp add: response_text_def text_block_def)

text \<open>
  Claim C1. When the text of the model's response is malformed after the fences are
  stripped, the analysis endpoint answers with a success envelope (status 200,
  \<^verbatim>\<open>success: true\<close>) that carries a verdict with \<^verbatim>\<open>confidence\<close> \<^verbatim>\<open>"low"\<close> and \<^verbatim>\<open>hasNews\<close>
  \<^verbatim>\<open>false\<close>; it does not answer with an error.
\<close>

theorem malformed_output_falls_back:
  assumes "p \<noteq> []" "key \<noteq> []"
    and "claude (claude_request key p kws srs) = Replied analysisData"
    and "response_text analysisData = Inr text"
    and "malformed (clean_response text)"
  shows "\<exists>verdict.
           fst (analyze_prospect \<lparr>BRAVE_API_KEY = b, ANTHROPIC_API_KEY = Some key\<rparr>
                  (Some p) (Some kws) (Some srs) claude)
             = Response 200 (JObj [(''success'', JBool True), (''analysis'', verdict)]) \<and>
           field verdict ''confidence'' = Some (JStr ''low'') \<and>
           field verdict ''hasNews'' = Some (JBool False)"
proof -
  from assms(5) obtain e where "decode_analysis (clean_response text) = Inl e"
    using malformed_decode by blast
  from analyze_fallback [where claude = claude, OF assms(1-4) this]
  show ?thesis
    by (simp add: analysis_envelope_def fallback_analysis_def)
qed

text \<open>The model answers \<^verbatim>\<open>not json\<close>.\<close>

theorem malformed_output_falls_back_witness:
  "''Acme Corp'' \<noteq> [] \<and> ''anthropic-key'' \<noteq> [] \<and>
   text_reply ''not json'' (claude_request ''anthropic-key'' ''Acme Corp'' [''funding''] [])
     = Replied (text_block ''not json'') \<and>
   response_text (text_block ''not json'') = Inr ''not json'' \<and>
   malformed (clean_response ''not json'') \<and>
   (\<exists>verdict.
      fst (analyze_prospect
             \<lparr>BRAVE_API_KEY = Some ''brave-key'', ANTHROPIC_API_KEY = Some ''anthropic-key''\<rparr>
             (Some ''Acme Corp'') (Some [''funding'']) (Some []) (text_reply ''not json''))
        = Response 200 (JObj [(''success'', JBool True), (''analysis'', verdict)]) \<and>
      field verdict ''confidence'' = Some (JStr ''low'') \<and>
      field verdict ''hasNews'' = Some (JBool False))"
proof -
  have 1: "''Acme Corp'' \<noteq> []" and 2: "''anthropic-key'' \<noteq> []" by simp_all
  have 3: "text_reply ''not json'' (claude_request ''anthropic-key'' ''Acme Corp'' [''funding''] [])
             = Replied (text_block ''not json'')"
    by (simp add: text_reply_def)
  have 4: "response_text (text_block ''not json'') = Inr ''not json''"
    by (rule response_text_block)
  have 5: "malformed (clean_response ''not json'')"
    by code_simp
  from malformed_output_falls_back
         [where claude = "text_reply ''not json''" and b = "Some ''brave-key''", OF 1 2 3 4 5]
       1 2 3 4 5
  show ?thesis by blast
qed

text \<open>
  Claim C4, amended. When the fallback path is taken, the verdict has \<^verbatim>\<open>hasNews\<close> \<^verbatim>\<open>false\<close>,
  \<^verbatim>\<open>newsType\<close> \<^verbatim>\<open>"other"\<close>, \<^verbatim>\<open>confidence\<close> \<^verbatim>\<open>"low"\<close>, the summary
  \<^verbatim>\<open>"Unable to analyze search results properly"\<close>, an alert message that names the prospect
  and asks for a manual review, and a \<^verbatim>\<open>sourceUrl\<close> that is the \<^verbatim>\<open>url\<close> of the first search
  result when there is a first result and its \<^verbatim>\<open>url\<close> is truthy (for a string: not empty),
  and \<^verbatim>\<open>null\<close> otherwise.
\<close>

theorem fallback_verdict_fields:
  assumes "p \<noteq> []" "key \<noteq> []"
    and "claude (claude_request key p kws srs) = Replied analysisData"
    and "response_text analysisData = Inr text"
    and "decode_analysis (clean_response text) = Inl e"
  shows "\<exists>verdict.
           fst (analyze_prospect \<lparr>BRAVE_API_KEY = b, ANTHROPIC_API_KEY = Some key\<rparr>
                  (Some p) (Some kws) (Some srs) claude)
             = Response 200 (JObj [(''success'', JBool True), (''analysis'', verdict)]) \<and>
           field verdict ''hasNews'' = Some (JBool False) \<and>
           field verdict ''newsType'' = Some (JStr ''other'') \<and>
           field verdict ''confidence'' = Some (JStr ''low'') \<and>
           field verdict ''summary'' = Some (JStr ''Unable to analyze search results properly'') \<and>
           field verdict ''slackMessage'' =
             Some (JStr (info_sign @ '' Unable to analyze news for '' @ p @
                         '' - manual review needed'')) \<and>
           field verdict ''sourceUrl'' =
             Some (case srs of
                     [] \<Rightarrow> JNull
                   | first # rest \<Rightarrow>
                       (case field first ''url'' of
                          None \<Rightarrow> JNull
                        | Some url \<Rightarrow> if truthy url then url else JNull))"
proof -
  have url: "js_or (get_opt (elem0 (JArr srs)) ''url'') JNull =
        (case srs of
           [] \<Rightarrow> JNull
         | first # rest \<Rightarrow>
             (case field first ''url'' of
                None \<Rightarrow> JNull
              | Some url \<Rightarrow> if truthy url then url else JNull))"
  proof (cases srs)
    case Nil
    then show ?thesis by (simp add: js_or_def)
  next
    case (Cons first rest)
    then show ?thesis by (cases first) (simp_all add: js_or_def)
  qed
  from analyze_fallback [where claude = claude, OF assms]
  show ?thesis
    by (simp add: analysis_envelope_def fallback_analysis_def url)
qed

text \<open>The model answers \<^verbatim>\<open>not json\<close>, and the first search result has a \<^verbatim>\<open>url\<close>.\<close>

theorem fallback_verdict_fields_witness:
  "''Acme Corp'' \<noteq> [] \<and> ''anthropic-key'' \<noteq> [] \<and>
   text_reply ''not json''
     (claude_request ''anthropic-key'' ''Acme Corp'' [''funding'']
        [JObj [(''url'', JStr ''https://example.com/a'')]])
     = Replied (text_block ''not json'') \<and>
   response_text (text_block ''not json'') = Inr ''not json'' \<and>
   decode_analysis (clean_response ''not json'') = Inl SyntaxError \<and>
   (\<exists>verdict.
      fst (analyze_prospect
             \<lparr>BRAVE_API_KEY = None, ANTHROPIC_API_KEY = Some ''anthropic-key''\<rparr>
             (Some ''Acme Corp'') (Some [''funding''])
             (Some [JObj [(''url'', JStr ''https://example.com/a'')]]) (text_reply ''not json''))
        = Response 200 (JObj [(''success'', JBool True), (''analysis'', verdict)]) \<and>
      field verdict ''hasNews'' = Some (JBool False) \<and>
      field verdict ''newsType'' = Some (JStr ''other'') \<and>
      field verdict ''confidence'' = Some (JStr ''low'') \<and>
      field verdict ''summary'' = Some (JStr ''Unable to analyze search results properly'') \<and>
      field verdict ''slackMessage'' =
        Some (JStr (info_sign @ '' Unable to analyze news for Acme Corp - manual review needed'')) \<and>
      field verdict ''sourceUrl'' = Some (JStr ''https://example.com/a''))"
proof -
  have 1: "''Acme Corp'' \<noteq> []" and 2: "''anthropic-key'' \<noteq> []" by simp_all
  have 3: "text_reply ''not json''
             (claude_request ''anthropic-key'' ''Acme Corp'' [''funding'']
                [JObj [(''url'', JStr ''https://example.com/a'')]])
           = Replied (text_block ''not json'')"
    by (simp add: text_reply_def)
  have 4: "response_text (text_block ''not json'') = Inr ''not json''"
    by (rule response_text_block)
  have 5: "decode_analysis (clean_response ''not json'') = Inl SyntaxError"
    by code_simp
  from fallback_verdict_fields
         [where claude = "text_reply ''not json''" and b = None, OF 1 2 3 4 5]
  have "\<exists>verdict.
      fst (analyze_prospect
             \<lparr>BRAVE_API_KEY = None, ANTHROPIC_API_KEY = Some ''anthropic-key''\<rparr>
             (Some ''Acme Corp'') (Some [''funding''])
             (Some [JObj [(''url'', JStr ''https://example.com/a'')]]) (text_reply ''not json''))
        = Response 200 (JObj [(''success'', JBool True), (''analysis'', verdict)]) \<and>
      field verdict ''hasNews'' = Some (JBool False) \<and>
      field verdict ''newsType'' = Some (JStr ''other'') \<and>
      field verdict ''confidence'' = Some (JStr ''low'') \<and>
      field verdict ''summary'' = Some (JStr ''Unable to analyze search results properly'') \<and>
      field verdict ''slackMessage'' =
        Some (JStr (info_sign @ '' Unable to analyze news for Acme Corp - manual review needed'')) \<and>
      field verdict ''sourceUrl'' = Some (JStr ''https://example.com/a'')"
    by simp
  with 1 2 3 4 5 show ?thesis by blast
qed

text \<open>
  The claim as it was stated fails where the first search result has an empty \<^verbatim>\<open>url\<close>, as
  the search endpoint gives a hit without one: the list is not empty, and \<^verbatim>\<open>sourceUrl\<close> is
  \<^verbatim>\<open>null\<close>, not that \<^verbatim>\<open>url\<close>.
\<close>

theorem fallback_source_url_counterexample:
  "fst (analyze_prospect sample_config (Some ''Acme Corp'') (Some [''funding''])
          (Some [unnamed_result]) (text_reply ''not json''))
     = Response 200
         (JObj [(''success'', JBool True),
                (''analysis'', fallback_analysis ''Acme Corp'' [unnamed_result])]) \<and>
   [unnamed_result] \<noteq> [] \<and>
   field unnamed_result ''url'' = Some (JStr []) \<and>
   field (fallback_analysis ''Acme Corp'' [unnamed_result]) ''sourceUrl'' = Some JNull \<and>
   field (fallback_analysis ''Acme Corp'' [unnamed_result]) ''sourceUrl''
     \<noteq> field unnamed_result ''url''"
proof -
  have "decode_analysis (clean_response ''not json'') = Inl SyntaxError"
    by code_simp
  then have "fst (analyze_prospect sample_config (Some ''Acme Corp'') (Some [''funding''])
                    (Some [unnamed_result]) (text_reply ''not json''))
     = Response 200
         (JObj [(''success'', JBool True),
                (''analysis'', fallback_analysis ''Acme Corp'' [unnamed_result])])"
    by (simp add: analyze_prospect_def sample_config_def text_reply_def response_text_block
          analysis_envelope_def)
  moreover have "field unnamed_result ''url'' = Some (JStr [])"
    by (simp add: unnamed_result_def)
  moreover have "field (fallback_analysis ''Acme Corp'' [unnamed_result]) ''sourceUrl'' = Some JNull"
    by (simp add: fallback_analysis_def unnamed_result_def js_or_def)
  ultimately show ?thesis by simp
qed

text \<open>
  Claim C9. For every prospect name that passes the endpoint's check of its input (a
  string that is not empty), the fallback verdict passes the structure test that a
  verdict parsed from the model's response has to pass.
\<close>

theorem fallback_validates:
  "p \<noteq> [] \<Longrightarrow> invalid_structure (fallback_analysis p srs) = Inr False"
  by (simp add: invalid_structure_def fallback_analysis_def)

theorem fallback_validates_witness:
  "''Acme Corp'' \<noteq> [] \<and>
   invalid_structure (fallback_analysis ''Acme Corp'' [unnamed_result]) = Inr False"
  using fallback_validates [of "''Acme Corp''" "[unnamed_result]"] by simp

subsection \<open>Fenced responses\<close>































section \<open>The search endpoint\<close>

text \<open>
  Claim C6. For a query that is missing or empty, the search endpoint answers with status
  400 and the error \<^verbatim>\<open>Query parameter is required\<close>, and it makes no call to the search
  provider.
\<close>

theorem empty_query_rejected:
  "query = None \<or> query = Some [] \<Longrightarrow>
   web_search cfg query brave =
     (Response 400 (JObj [(''error'', JStr ''Query parameter is required'')]), [])"
  by (auto simp: web_search_def)

text \<open>The empty query.\<close>

theorem empty_query_rejected_witness:
  "((Some [] :: string option) = None \<or> Some [] = Some ([] :: string)) \<and>
   web_search sample_config (Some []) (brave_reply (hits_reply []))
     = (Response 400 (JObj [(''error'', JStr ''Query parameter is required'')]), [])"
  using empty_query_rejected [of "Some []" sample_config "brave_reply (hits_reply [])"] by simp

lemma map_results_Inr:
  "map_results hits = Inr results \<Longrightarrow>
   length results = length hits \<and> (\<forall>i<length hits. format_result (hits ! i) = Inr (results ! i))"
proof (induction hits arbitrary: results)
  case Nil
  then show ?case by simp
next
  case (Cons h hs)
  then obtain r rs where r: "format_result h = Inr r" and rs: "map_results hs = Inr rs"
    and res: "results = r # rs"
    by (auto split: sum.splits)
  from Cons.IH [OF rs] r res show ?case
    by (auto simp: nth_Cons split: nat.splits)
qed

lemma format_results_Inr:
  "format_results searchData = Inr results \<Longrightarrow>
   length results = length (upstream_hits searchData) \<and>
   (\<forall>i<length results. format_result (upstream_hits searchData ! i) = Inr (results ! i))"
proof -
  assume a: "format_results searchData = Inr results"
  then obtain web where "get (Some searchData) ''web'' = Inr web"
    by (auto simp: format_results_def split: sum.splits)
  then have web: "get (Some searchData) ''web'' = Inr (field searchData ''web'')"
    using get_Inr by blast
  show ?thesis
  proof (cases "get_opt (field searchData ''web'') ''results''")
    case None
    with a web show ?thesis by (simp add: format_results_def upstream_hits_def)
  next
    case (Some r)
    with a web show ?thesis
      by (cases r) (auto simp: format_results_def upstream_hits_def dest!: map_results_Inr)
  qed
qed

lemma format_result_Inr:
  "format_result hit = Inr r \<Longrightarrow>
   r = JObj [(''title'', js_or (field hit ''title'') (JStr ''No title'')),
             (''url'', js_or (field hit ''url'') (JStr [])),
             (''description'', js_or (field hit ''description'') (JStr ''No description'')),
             (''published'', js_or (field hit ''age'') (JStr ''Recent'')),
             (''favicon'', js_or (get_opt (field hit ''profile'') ''img'') JNull)]"
  by (auto simp: format_result_def split: json.splits)

text \<open>
  Claim C7, amended. The endpoint asks the provider for 10 hits (\<^verbatim>\<open>count=10\<close>) and does not
  cut the list itself. For every successful search, the results are one record per hit of
  the provider's answer, in order: \<^verbatim>\<open>title\<close>, \<^verbatim>\<open>url\<close> and \<^verbatim>\<open>description\<close> are the hit's, \<^verbatim>\<open>published\<close>
  is its \<^verbatim>\<open>age\<close>, \<^verbatim>\<open>favicon\<close> is its \<^verbatim>\<open>profile.img\<close>, and a member that is missing (or falsy) is
  replaced by \<^verbatim>\<open>"No title"\<close>, the empty string, \<^verbatim>\<open>"No description"\<close>, \<^verbatim>\<open>"Recent"\<close> and \<^verbatim>\<open>null\<close>. The
  response echoes the query, and its total is the number of results.
\<close>

theorem search_results_normalized:
  assumes "q \<noteq> []" "key \<noteq> []"
    and "brave (brave_request key q) = Replied searchData"
    and "fst (web_search \<lparr>BRAVE_API_KEY = Some key, ANTHROPIC_API_KEY = a\<rparr> (Some q) brave)
           = Response 200 body"
  shows "\<exists>results.
           body = JObj [(''success'', JBool True), (''query'', JStr q),
                        (''results'', JArr results), (''total'', JInt (length results))] \<and>
           snd (web_search \<lparr>BRAVE_API_KEY = Some key, ANTHROPIC_API_KEY = a\<rparr> (Some q) brave)
             = [brave_request key q] \<and>
           map_of (search_params (brave_request key q)) ''count'' = Some ''10'' \<and>
           length results = length (upstream_hits searchData) \<and>
           (\<forall>i<length results.
              results ! i =
                JObj [(''title'', js_or (field (upstream_hits searchData ! i) ''title'') (JStr ''No title'')),
                      (''url'', js_or (field (upstream_hits searchData ! i) ''url'') (JStr [])),
                      (''description'',
                         js_or (field (upstream_hits searchData ! i) ''description'')
                               (JStr ''No description'')),
                      (''published'', js_or (field (upstream_hits searchData ! i) ''age'') (JStr ''Recent'')),
                      (''favicon'',
                         js_or (get_opt (field (upstream_hits searchData ! i) ''profile'') ''img'')
                               JNull)])"
proof -
  from assms obtain results where ok: "format_results searchData = Inr results"
    and body: "body = JObj [(''success'', JBool True), (''query'', JStr q),
                        (''results'', JArr results), (''total'', JInt (length results))]"
    by (auto simp: web_search_def Let_def split: sum.splits)
  from assms ok have calls:
    "snd (web_search \<lparr>BRAVE_API_KEY = Some key, ANTHROPIC_API_KEY = a\<rparr> (Some q) brave)
       = [brave_request key q]"
    by (simp add: web_search_def Let_def)
  have count: "map_of (search_params (brave_request key q)) ''count'' = Some ''10''"
    by (simp add: brave_request_def)
  from format_results_Inr [OF ok] format_result_Inr body calls count
  show ?thesis by (intro exI [of _ results]) (auto dest!: format_result_Inr)
qed

text \<open>The provider answers with two hits, the second without any member.\<close>

theorem search_results_normalized_witness:
  "''acme'' \<noteq> [] \<and> ''brave-key'' \<noteq> [] \<and>
   brave_reply (hits_reply [acme_hit, JObj []]) (brave_request ''brave-key'' ''acme'')
     = Replied (hits_reply [acme_hit, JObj []]) \<and>
   fst (web_search \<lparr>BRAVE_API_KEY = Some ''brave-key'', ANTHROPIC_API_KEY = None\<rparr> (Some ''acme'')
          (brave_reply (hits_reply [acme_hit, JObj []])))
     = Response 200
         (JObj [(''success'', JBool True), (''query'', JStr ''acme''),
                (''results'',
                   JArr [JObj [(''title'', JStr ''Acme raises funds''),
                               (''url'', JStr ''https://example.com/a''),
                               (''description'', JStr ''No description''),
                               (''published'', JStr ''2 days ago''), (''favicon'', JNull)],
                         unnamed_result]),
                (''total'', JInt 2)]) \<and>
   (\<exists>results.
      JObj [(''success'', JBool True), (''query'', JStr ''acme''),
            (''results'',
               JArr [JObj [(''title'', JStr ''Acme raises funds''),
                           (''url'', JStr ''https://example.com/a''),
                           (''description'', JStr ''No description''),
                           (''published'', JStr ''2 days ago''), (''favicon'', JNull)],
                     unnamed_result]),
            (''total'', JInt 2)]
        = JObj [(''success'', JBool True), (''query'', JStr ''acme''),
                (''results'', JArr results), (''total'', JInt (length results))] \<and>
      snd (web_search \<lparr>BRAVE_API_KEY = Some ''brave-key'', ANTHROPIC_API_KEY = None\<rparr>
             (Some ''acme'') (brave_reply (hits_reply [acme_hit, JObj []])))
        = [brave_request ''brave-key'' ''acme''] \<and>
      map_of (search_params (brave_request ''brave-key'' ''acme'')) ''count'' = Some ''10'' \<and>
      length results = length (upstream_hits (hits_reply [acme_hit, JObj []])))"
proof -
  have 1: "''acme'' \<noteq> []" and 2: "''brave-key'' \<noteq> []" by simp_all
  have 3: "brave_reply (hits_reply [acme_hit, JObj []]) (brave_request ''brave-key'' ''acme'')
             = Replied (hits_reply [acme_hit, JObj []])"
    by (simp add: brave_reply_def)
  have 4: "fst (web_search \<lparr>BRAVE_API_KEY = Some ''brave-key'', ANTHROPIC_API_KEY = None\<rparr>
                  (Some ''acme'') (brave_reply (hits_reply [acme_hit, JObj []])))
     = Response 200
         (JObj [(''success'', JBool True), (''query'', JStr ''acme''),
                (''results'',
                   JArr [JObj [(''title'', JStr ''Acme raises funds''),
                               (''url'', JStr ''https://example.com/a''),
                               (''description'', JStr ''No description''),
                               (''published'', JStr ''2 days ago''), (''favicon'', JNull)],
                         unnamed_result]),
                (''total'', JInt 2)])"
    by (simp add: web_search_def brave_reply_def hits_reply_def format_results_def
          format_result_def acme_hit_def unnamed_result_def js_or_def Let_def JInt_def)
  from search_results_normalized [where brave = "brave_reply (hits_reply [acme_hit, JObj []])", OF 1 2 3 4]
       1 2 3 4
  show ?thesis by blast
qed

text \<open>
  The claim as it was stated fails when the provider answers with more hits than it was
  asked for: eleven hits give eleven results.
\<close>

theorem search_results_count_counterexample:
  "fst (web_search sample_config (Some ''acme'')
          (brave_reply (hits_reply (replicate 11 (JObj [])))))
     = Response 200
         (JObj [(''success'', JBool True), (''query'', JStr ''acme''),
                (''results'', JArr (replicate 11 unnamed_result)), (''total'', JInt 11)]) \<and>
   \<not> length (replicate 11 unnamed_result) \<le> 10"
proof -
  have "fst (web_search sample_config (Some ''acme'')
          (brave_reply (hits_reply (replicate 11 (JObj [])))))
     = Response 200
         (JObj [(''success'', JBool True), (''query'', JStr ''acme''),
                (''results'', JArr (replicate 11 unnamed_result)), (''total'', JInt 11)])"
    by code_simp
  then show ?thesis by simp
qed

section \<open>The monitoring endpoint\<close>

lemma obj_Cons:
  "obj ((k, v) # fs) = (case v of None \<Rightarrow> obj fs | Some x \<Rightarrow> (k, x) # obj fs)"
  by (cases v) simp_all

lemma join_take4: "join '' OR '' (take 4 kws) = disjunction kws"
  by (cases kws rule: disjunction.cases) simp_all

text \<open>
  Claim C3. For every prospect name and keyword list that pass the endpoint's check, the
  query of the search call is the prospect name in double quotes, then in parentheses the
  first four keywords (all of them when there are fewer) with \<^verbatim>\<open>OR\<close> between them, then
  \<^verbatim>\<open>2025\<close>; the same query is reported in the metadata of a successful response.
\<close>

theorem search_query_built:
  assumes "p \<noteq> []"
  shows "(\<exists>rest. snd (monitor_prospect now (Some p) (Some kws) webSearch analyzeProspect)
                   = WebSearchCall (quoted p @ '' ('' @ disjunction kws @ '') 2025'') # rest) \<and>
         (\<forall>body. fst (monitor_prospect now (Some p) (Some kws) webSearch analyzeProspect)
                   = Response 200 body \<longrightarrow>
                 get_opt (field body ''metadata'') ''searchQuery''
                   = Some (JStr (quoted p @ '' ('' @ disjunction kws @ '') 2025'')))"
proof -
  have q: "searchQuery p kws = quoted p @ '' ('' @ disjunction kws @ '') 2025''"
    by (simp add: searchQuery_def quoted_def join_take4)
  show ?thesis
    using assms unfolding monitor_prospect_def Let_def
    by (auto simp: q obj_Cons split: selfcall.splits sum.splits option.splits)
qed

text \<open>The prospect Acme Corp with the keywords funding, launch, hiring, partnership and
  ipo: the query is \<^verbatim>\<open>"Acme Corp" (funding OR launch OR hiring OR partnership) 2025\<close>.\<close>

theorem search_query_built_witness:
  "''Acme Corp'' \<noteq> [] \<and>
   (\<exists>rest. snd (monitor_prospect ''2025-06-01T00:00:00.000Z'' (Some ''Acme Corp'')
                  (Some [''funding'', ''launch'', ''hiring'', ''partnership'', ''ipo''])
                  (search_answer no_results) (analysis_answer no_news))
             = WebSearchCall
                 (dquote # ''Acme Corp'' @ dquote #
                  '' (funding OR launch OR hiring OR partnership) 2025'') # rest) \<and>
   get_opt (field (JObj [(''success'', JBool True), (''prospect'', JStr ''Acme Corp''),
                         (''searchResults'', JArr []),
                         (''analysis'',
                            JObj [(''company'', JStr ''Acme Corp''), (''hasNews'', JBool False)]),
                         (''metadata'',
                            JObj [(''searchQuery'',
                                     JStr (dquote # ''Acme Corp'' @ dquote #
                                           '' (funding OR launch OR hiring OR partnership) 2025'')),
                                  (''totalResults'', JInt 0),
                                  (''timestamp'', JStr ''2025-06-01T00:00:00.000Z'')])])
             ''metadata'') ''searchQuery''
     = Some (JStr (dquote # ''Acme Corp'' @ dquote #
                   '' (funding OR launch OR hiring OR partnership) 2025''))"
proof -
  have 1: "''Acme Corp'' \<noteq> []" by simp
  have 2: "fst (monitor_prospect ''2025-06-01T00:00:00.000Z'' (Some ''Acme Corp'')
                  (Some [''funding'', ''launch'', ''hiring'', ''partnership'', ''ipo''])
                  (search_answer no_results) (analysis_answer no_news))
           = Response 200
               (JObj [(''success'', JBool True), (''prospect'', JStr ''Acme Corp''),
                      (''searchResults'', JArr []),
                      (''analysis'',
                         JObj [(''company'', JStr ''Acme Corp''), (''hasNews'', JBool False)]),
                      (''metadata'',
                         JObj [(''searchQuery'',
                                  JStr (dquote # ''Acme Corp'' @ dquote #
                                        '' (funding OR launch OR hiring OR partnership) 2025'')),
                               (''totalResults'', JInt 0),
                               (''timestamp'', JStr ''2025-06-01T00:00:00.000Z'')])])"
    by (simp add: monitor_prospect_def search_answer_def analysis_answer_def no_results_def
          no_news_def searchQuery_def Let_def)
  from search_query_built [OF 1, of "''2025-06-01T00:00:00.000Z''"
             "[''funding'', ''launch'', ''hiring'', ''partnership'', ''ipo'']"
             "search_answer no_results" "analysis_answer no_news"] 2
  show ?thesis
    by (simp add: quoted_def)
qed

text \<open>Every body the monitoring endpoint sends is an object; its error responses are
  objects by construction.\<close>

lemma monitor_prospect_object:
  "fst (monitor_prospect now prospect keywords webSearch analyzeProspect) = Response n body \<Longrightarrow>
   \<exists>members. body = JObj members"
  unfolding monitor_prospect_def Let_def
  by (auto split: if_splits selfcall.splits sum.splits)

section \<open>The batch endpoint\<close>

lemma monitor_loop_eq:
  "monitor_loop monitor kws i ps (results, events) =
     (results @ entries monitor kws i ps, events @ trace monitor kws i ps)"
  by (induction ps arbitrary: i results events) (auto split: selfcall.splits)

lemma length_entries: "length (entries monitor kws i ps) = length ps"
  by (induction ps arbitrary: i) auto

lemma nth_entries:
  "k < length ps \<Longrightarrow>
   entries monitor kws i ps ! k = entry (monitor (i + k) (ps ! k) kws) (ps ! k)"
proof (induction ps arbitrary: i k)
  case Nil
  then show ?case by simp
next
  case (Cons p ps)
  then show ?case by (cases k) auto
qed

lemma trace_concat:
  "trace monitor kws i ps =
     concat (map (\<lambda>k. steps (monitor (i + k) (ps ! k) kws) (ps ! k) kws) [0..<length ps])"
proof (induction ps arbitrary: i)
  case Nil
  then show ?case by simp
next
  case (Cons p ps)
  have "[0..<Suc (length ps)] = 0 # map Suc [0..<length ps]"
    by (metis map_Suc_upt upt_conv_Cons zero_less_Suc)
  then show ?case using Cons.IH [of "Suc i"] by (simp add: comp_def del: upt_Suc)
qed





lemma entry_null: "entry c p = JNull \<longleftrightarrow> c = Got JNull"
  by (cases c) (auto simp: failure_record_def)


lemma batch_unfold:
  assumes "ps \<noteq> []" "kws \<noteq> []"
  shows "monitor_all_prospects (Some ps) (Some kws) monitor =
           (case summary (length ps) (entries monitor kws 0 ps) of
              Inl e \<Rightarrow> (ErrorResponse 500 ''Batch monitoring failed'' e, trace monitor kws 0 ps)
            | Inr s \<Rightarrow>
                (Response 200
                   (JObj [(''success'', JBool True), (''results'', JArr (entries monitor kws 0 ps)),
                          (''summary'', s)]),
                 trace monitor kws 0 ps))"
  using assms by (simp add: monitor_all_prospects_def monitor_loop_eq)




text \<open>
  Claim C10. For a batch over a prospect list that is not empty: a summary is returned
  whenever the keyword list is not empty and no call answers \<^verbatim>\<open>null\<close>; and whenever a
  summary is returned, its \<^verbatim>\<open>total\<close> is the number of prospects, \<^verbatim>\<open>successful\<close> plus \<^verbatim>\<open>failed\<close> is
  the number of results, there is one result per prospect, and \<^verbatim>\<open>withNews\<close> is at most
  \<^verbatim>\<open>successful\<close>.
\<close>

theorem batch_summary_consistent:
  assumes "ps \<noteq> []"
  shows "(kws \<noteq> [] \<and> (\<forall>j<length ps. monitor j (ps ! j) kws \<noteq> Got JNull) \<longrightarrow>
            (\<exists>body. fst (monitor_all_prospects (Some ps) (Some kws) monitor) = Response 200 body)) \<and>
         (\<forall>body. fst (monitor_all_prospects (Some ps) (Some kws) monitor) = Response 200 body \<longrightarrow>
            (\<exists>results t s f w.
               body = JObj [(''success'', JBool True), (''results'', JArr results),
                            (''summary'',
                               JObj [(''total'', JInt t), (''successful'', JInt s),
                                     (''failed'', JInt f), (''withNews'', JInt w)])] \<and>
               t = length ps \<and> s + f = length results \<and> length results = length ps \<and> w \<le> s))"
proof (cases "kws = []")
  case True
  then show ?thesis by (simp add: monitor_all_prospects_def)
next
  case False
  let ?rs = "entries monitor kws 0 ps"
  have len: "length ?rs = length ps" by (rule length_entries)
  have nth: "\<And>j. j < length ps \<Longrightarrow> ?rs ! j = entry (monitor j (ps ! j) kws) (ps ! j)"
    using nth_entries [of _ ps monitor kws 0] by simp
  have news: "length (filter with_news ?rs) \<le> length (filter succeeded ?rs)"
  proof -
    have "filter with_news ?rs = filter with_news (filter succeeded ?rs)"
      by (auto simp: with_news_def intro: filter_cong)
    then show ?thesis by (metis length_filter_le)
  qed
  have 1: "(\<forall>j<length ps. monitor j (ps ! j) kws \<noteq> Got JNull) \<Longrightarrow> JNull \<notin> set ?rs"
    by (auto simp: in_set_conv_nth len nth entry_null)
  show ?thesis
    using batch_unfold [OF assms False, of monitor] 1 news len
      sum_length_filter_compl [of succeeded ?rs]
    by (auto simp: summary_def split: if_splits)
qed

text \<open>Three prospects; the second call raises.\<close>

theorem batch_summary_consistent_witness:
  "[''Acme Corp'', ''Globex'', ''Initech''] \<noteq> [] \<and>
   fst (monitor_all_prospects (Some [''Acme Corp'', ''Globex'', ''Initech'']) (Some [''funding''])
          (fails_at 1 (Threw ''connect ECONNREFUSED'')))
     = Response 200
         (JObj [(''success'', JBool True),
                (''results'',
                   JArr [monitored ''Acme Corp'',
                         failure_record ''Globex'' ''connect ECONNREFUSED'',
                         monitored ''Initech'']),
                (''summary'',
                   JObj [(''total'', JInt 3), (''successful'', JInt 2), (''failed'', JInt 1),
                         (''withNews'', JInt 2)])]) \<and>
   (\<exists>results t s f w.
      JObj [(''success'', JBool True),
            (''results'',
               JArr [monitored ''Acme Corp'',
                     failure_record ''Globex'' ''connect ECONNREFUSED'',
                     monitored ''Initech'']),
            (''summary'',
               JObj [(''total'', JInt 3), (''successful'', JInt 2), (''failed'', JInt 1),
                     (''withNews'', JInt 2)])]
        = JObj [(''success'', JBool True), (''results'', JArr results),
                (''summary'',
                   JObj [(''total'', JInt t), (''successful'', JInt s),
                         (''failed'', JInt f), (''withNews'', JInt w)])] \<and>
      t = length [''Acme Corp'', ''Globex'', ''Initech''] \<and> s + f = length results \<and>
      length results = length [''Acme Corp'', ''Globex'', ''Initech''] \<and> w \<le> s)"
proof -
  let ?ps = "[''Acme Corp'', ''Globex'', ''Initech'']"
  have 1: "?ps \<noteq> []" by simp
  have 2: "fst (monitor_all_prospects (Some ?ps) (Some [''funding''])
                  (fails_at 1 (Threw ''connect ECONNREFUSED'')))
     = Response 200
         (JObj [(''success'', JBool True),
                (''results'',
                   JArr [monitored ''Acme Corp'',
                         failure_record ''Globex'' ''connect ECONNREFUSED'',
                         monitored ''Initech'']),
                (''summary'',
                   JObj [(''total'', JInt 3), (''successful'', JInt 2), (''failed'', JInt 1),
                         (''withNews'', JInt 2)])])"
    by code_simp
  from batch_summary_consistent [OF 1, of "[''funding'']" "fails_at 1 (Threw ''connect ECONNREFUSED'')"] 2
  have "\<exists>results t s f w.
      JObj [(''success'', JBool True),
            (''results'',
               JArr [monitored ''Acme Corp'',
                     failure_record ''Globex'' ''connect ECONNREFUSED'',
                     monitored ''Initech'']),
            (''summary'',
               JObj [(''total'', JInt 3), (''successful'', JInt 2), (''failed'', JInt 1),
                     (''withNews'', JInt 2)])]
        = JObj [(''success'', JBool True), (''results'', JArr results),
                (''summary'',
                   JObj [(''total'', JInt t), (''successful'', JInt s),
                         (''failed'', JInt f), (''withNews'', JInt w)])] \<and>
      t = length ?ps \<and> s + f = length results \<and> length results = length ?ps \<and> w \<le> s"
    by blast
  with 1 2 show ?thesis by blast
qed

text \<open>The events of a batch run, prospect by prospect.\<close>

lemma batch_events:
  assumes "ps \<noteq> []" "kws \<noteq> []"
  shows "snd (monitor_all_prospects (Some ps) (Some kws) monitor) =
           concat (map (\<lambda>k. case monitor k (ps ! k) kws of
                               Got monitorData \<Rightarrow> [MonitorCall (ps ! k) kws, Pause 1000]
                             | Threw message \<Rightarrow> [MonitorCall (ps ! k) kws])
                       [0..<length ps])"
proof -
  have "\<And>c p. steps c p kws =
          (case c of Got monitorData \<Rightarrow> [MonitorCall p kws, Pause 1000]
                   | Threw message \<Rightarrow> [MonitorCall p kws])"
    by (simp split: selfcall.splits)
  then have "trace monitor kws 0 ps =
           concat (map (\<lambda>k. case monitor k (ps ! k) kws of
                               Got monitorData \<Rightarrow> [MonitorCall (ps ! k) kws, Pause 1000]
                             | Threw message \<Rightarrow> [MonitorCall (ps ! k) kws])
                       [0..<length ps])"
    by (simp add: trace_concat)
  with batch_unfold [OF assms, of monitor] show ?thesis
    by (simp split: sum.splits)
qed

lemma trace_split:
  "k < length ps \<Longrightarrow>
   trace monitor kws i ps =
     trace monitor kws i (take k ps) @ steps (monitor (i + k) (ps ! k) kws) (ps ! k) kws @
     trace monitor kws (Suc (i + k)) (drop (Suc k) ps)"
proof (induction ps arbitrary: i k)
  case Nil
  then show ?case by simp
next
  case (Cons p ps)
  show ?case
  proof (cases k)
    case 0
    then show ?thesis by simp
  next
    case (Suc k')
    with Cons.prems have "k' < length ps" by simp
    from Cons.IH [OF this, of "Suc i"] Suc show ?thesis by simp
  qed
qed

lemma calls_of_steps: "length (filter is_call (steps c p kws)) = 1"
  by (cases c) simp_all

lemma calls_of_trace: "length (filter is_call (trace monitor kws i ps)) = length ps"
  by (induction ps arbitrary: i) (simp_all add: calls_of_steps)

text \<open>
  Claim C8, amended. In every batch run, after the call for a prospect has answered with a
  body (a success or an error envelope), a pause of 1000 milliseconds follows at once,
  before the call for any later prospect: the events of the run are those of the rounds
  before, then this call and the pause, then the rest.
\<close>

theorem pause_after_answer:
  assumes "ps \<noteq> []" "kws \<noteq> []" "k < length ps"
    and "monitor k (ps ! k) kws = Got monitorData"
  shows "\<exists>before after.
           snd (monitor_all_prospects (Some ps) (Some kws) monitor)
             = before @ [MonitorCall (ps ! k) kws, Pause 1000] @ after \<and>
           length (filter is_call before) = k"
proof -
  have "trace monitor kws 0 ps =
          trace monitor kws 0 (take k ps) @ [MonitorCall (ps ! k) kws, Pause 1000] @
          trace monitor kws (Suc k) (drop (Suc k) ps)"
    using trace_split [OF assms(3), of monitor kws 0] assms(4) by simp
  moreover have "length (filter is_call (trace monitor kws 0 (take k ps))) = k"
    using assms(3) by (simp add: calls_of_trace)
  moreover have "snd (monitor_all_prospects (Some ps) (Some kws) monitor) = trace monitor kws 0 ps"
    using batch_unfold [OF assms(1,2), of monitor] by (simp split: sum.splits)
  ultimately show ?thesis by metis
qed

text \<open>Three prospects; the second call raises, the third answers.\<close>

theorem pause_after_answer_witness:
  "[''Acme Corp'', ''Globex'', ''Initech''] \<noteq> [] \<and> [''funding''] \<noteq> [] \<and>
   (2::nat) < length [''Acme Corp'', ''Globex'', ''Initech''] \<and>
   fails_at 1 (Threw ''connect ECONNREFUSED'') 2 ([''Acme Corp'', ''Globex'', ''Initech''] ! 2)
     [''funding''] = Got (monitored ''Initech'') \<and>
   (\<exists>before after.
      snd (monitor_all_prospects (Some [''Acme Corp'', ''Globex'', ''Initech''])
             (Some [''funding'']) (fails_at 1 (Threw ''connect ECONNREFUSED'')))
        = before @ [MonitorCall ''Initech'' [''funding''], Pause 1000] @ after \<and>
      length (filter is_call before) = 2)"
proof -
  let ?ps = "[''Acme Corp'', ''Globex'', ''Initech'']"
  have 1: "?ps \<noteq> []" and 2: "[''funding''] \<noteq> []" and 3: "(2::nat) < length ?ps"
    by simp_all
  have 4: "fails_at 1 (Threw ''connect ECONNREFUSED'') 2 (?ps ! 2) [''funding'']
             = Got (monitored ''Initech'')"
    by (simp add: fails_at_def)
  from pause_after_answer [where monitor = "fails_at 1 (Threw ''connect ECONNREFUSED'')", OF 1 2 3 4]
  have "\<exists>before after.
      snd (monitor_all_prospects (Some ?ps) (Some [''funding''])
             (fails_at 1 (Threw ''connect ECONNREFUSED'')))
        = before @ [MonitorCall ''Initech'' [''funding''], Pause 1000] @ after \<and>
      length (filter is_call before) = 2"
    by simp
  with 1 2 3 4 show ?thesis by blast
qed

text \<open>
  The claim as it was stated fails for a prospect whose call raises: the failure is
  recorded, and the call for the next prospect follows at once, with no pause between the
  two. Of two prospects the first call raises and the second answers.
\<close>

theorem pause_after_failure_counterexample:
  "monitor_all_prospects (Some [''Acme Corp'', ''Globex'']) (Some [''funding''])
     (fails_at 0 (Threw ''connect ECONNREFUSED''))
     = (Response 200
          (JObj [(''success'', JBool True),
                 (''results'',
                    JArr [JObj [(''success'', JBool False), (''prospect'', JStr ''Acme Corp''),
                                (''error'', JStr ''connect ECONNREFUSED'')],
                          monitored ''Globex'']),
                 (''summary'',
                    JObj [(''total'', JInt 2), (''successful'', JInt 1), (''failed'', JInt 1),
                          (''withNews'', JInt 1)])]),
        [MonitorCall ''Acme Corp'' [''funding''], MonitorCall ''Globex'' [''funding''],
         Pause 1000])"
  by code_simp

end
